theory Spec2Isabelle
  imports Main "HOL-Library.Sublist"
begin

section \<open>The bootstrap screen of the CRA Client (src/src/main.ts)\<close>

subsection \<open>Data model\<close>

text \<open>
  The snapshot the backend hands to the bootstrap screen. The legacy screen
  (src/unnamed/part_002) declares the first ten fields; the current screen (src/src/main.ts)
  declares the same ten, in the same order, followed by the six fields of the build-parity
  gate. A field of type \<^verbatim>\<open>string | null\<close> is a \<^typ>\<open>string option\<close>; for the optional fields
  (\<^verbatim>\<open>web_build_hash?: string | null\<close>) \<open>None\<close> stands for both \<^verbatim>\<open>null\<close> and \<^verbatim>\<open>undefined\<close>, which the
  code never tells apart (it reads them through \<^verbatim>\<open>??\<close> only). The window sizes are never
  read by the screen.
\<close>

record LegacyBootstrapState =
  ready :: bool
  config_error :: "string option"
  app_url :: "string option"
  app_host :: "string option"
  window_title :: string
  window_width :: int
  window_height :: int
  version :: string
  reachable :: bool
  reachability_error :: "string option"

record BootstrapState = LegacyBootstrapState +
  web_build_hash :: "string option"
  web_build_time :: "string option"
  required_web_build_hash :: "string option"
  build_parity_ok :: bool
  build_parity_error :: "string option"
  enforce_web_build :: bool

text \<open>The backend commands the screen invokes, and the kinds of the status banner.\<close>

datatype command = bootstrap_state | show_main_window | launch_app | retry_connect

datatype status_kind = Loading | Ok | Warning | Error

datatype element = Details | Actions

text \<open>
  Every write to the page and every backend invocation, in program order. \<open>Invoke c ok\<close>
  records that command \<open>c\<close> was invoked and whether its promise was fulfilled.
\<close>

datatype event =
    Invoke command bool
  | SetStatus status_kind string
  | SetSubtitle string
  | SetDetails string
  | SetHidden element bool
  | SetRetryDisabled bool

text \<open>
  The page: the elements the code writes, the module variable \<^verbatim>\<open>windowVisible\<close>, and the
  history of effects so far.
\<close>

record page =
  status_className :: status_kind
  status_textContent :: string
  subtitle_textContent :: string
  details_textContent :: string
  details_hidden :: bool
  actions_hidden :: bool
  retry_disabled :: bool
  windowVisible :: bool
  trace :: "event list"

text \<open>The page as the markup of main.ts creates it (lines 40-65, 84).\<close>

definition initial_page :: page where
  "initial_page =
     \<lparr>status_className = Loading,
      status_textContent = ''Checking server reachability...'',
      subtitle_textContent = ''Connecting to server...'',
      details_textContent = [],
      details_hidden = True,
      actions_hidden = True,
      retry_disabled = True,
      windowVisible = False,
      trace = []\<rparr>"

subsection \<open>The backend as an oracle\<close>

text \<open>
  \<^verbatim>\<open>invoke\<close> returns a promise. The backend is a parameter: the \<open>n\<close>-th invocation of a command
  is rejected with an error (\<open>Some e\<close>, where \<open>e\<close> is what \<^verbatim>\<open>String(error)\<close> renders) or
  fulfilled (\<open>None\<close>); \<^verbatim>\<open>bootstrap_state\<close> is fulfilled with a snapshot. A settled promise is a
  value of \<open>string + 'a\<close>, \<open>Inl\<close> the rejection. Handlers run to completion, one after the other.
\<close>

record backend =
  command_reply :: "command \<Rightarrow> nat \<Rightarrow> string option"
  bootstrap_state_reply :: "nat \<Rightarrow> string + BootstrapState"

type_synonym 'a promise = "page \<Rightarrow> (string + 'a) \<times> page"

definition emit :: "event \<Rightarrow> page \<Rightarrow> page" where
  "emit e w = w\<lparr>trace := trace w @ [e]\<rparr>"

fun is_invoke :: "command \<Rightarrow> event \<Rightarrow> bool" where
  "is_invoke c (Invoke c' ok) = (c = c')"
| "is_invoke c _ = False"

definition invocations :: "command \<Rightarrow> event list \<Rightarrow> nat" where
  "invocations c evs = length (filter (is_invoke c) evs)"

definition invoke :: "backend \<Rightarrow> command \<Rightarrow> unit promise" where
  "invoke be c w =
     (case command_reply be c (invocations c (trace w)) of
        None \<Rightarrow> (Inr (), emit (Invoke c True) w)
      | Some e \<Rightarrow> (Inl e, emit (Invoke c False) w))"

definition invoke_bootstrap_state :: "backend \<Rightarrow> BootstrapState promise" where
  "invoke_bootstrap_state be w =
     (case bootstrap_state_reply be (invocations bootstrap_state (trace w)) of
        Inr state \<Rightarrow> (Inr state, emit (Invoke bootstrap_state True) w)
      | Inl e \<Rightarrow> (Inl e, emit (Invoke bootstrap_state False) w))"

text \<open>\<^verbatim>\<open>await p; rest\<close>, a rejection of \<open>p\<close> propagating, and \<^verbatim>\<open>try { p } catch (error) { h }\<close>.\<close>

definition await :: "'a promise \<Rightarrow> ('a \<Rightarrow> 'b promise) \<Rightarrow> 'b promise" where
  "await p rest w =
     (case p w of (Inl e, w') \<Rightarrow> (Inl e, w') | (Inr x, w') \<Rightarrow> rest x w')"

definition try_catch :: "'a promise \<Rightarrow> (string \<Rightarrow> 'a promise) \<Rightarrow> 'a promise" where
  "try_catch p h w =
     (case p w of (Inl e, w') \<Rightarrow> h e w' | (Inr x, w') \<Rightarrow> (Inr x, w'))"

definition fulfilled :: "page \<Rightarrow> (string + unit) \<times> page" where
  "fulfilled w = (Inr (), w)"

text \<open>
  JavaScript's truthiness of a \<^verbatim>\<open>string | null\<close> (\<^verbatim>\<open>null\<close> and the empty string are falsy) and the
  nullish coalescing operator \<^verbatim>\<open>??\<close> (only \<^verbatim>\<open>null\<close> and \<^verbatim>\<open>undefined\<close> give the default).
\<close>

definition truthy :: "string option \<Rightarrow> bool" where
  "truthy x = (case x of None \<Rightarrow> False | Some s \<Rightarrow> s \<noteq> [])"

definition nullish_or :: "'a option \<Rightarrow> 'a \<Rightarrow> 'a" where
  "nullish_or x d = (case x of None \<Rightarrow> d | Some v \<Rightarrow> v)"

subsection \<open>The functions of main.ts\<close>

definition setStatus :: "status_kind \<Rightarrow> string \<Rightarrow> page \<Rightarrow> page" where
  "setStatus kind message w =
     emit (SetStatus kind message) (w\<lparr>status_className := kind, status_textContent := message\<rparr>)"

definition setDetails :: "string \<Rightarrow> page \<Rightarrow> page" where
  "setDetails message w = emit (SetDetails message) (w\<lparr>details_textContent := message\<rparr>)"

definition set_subtitle :: "string \<Rightarrow> page \<Rightarrow> page" where
  "set_subtitle message w = emit (SetSubtitle message) (w\<lparr>subtitle_textContent := message\<rparr>)"

definition set_details_hidden :: "bool \<Rightarrow> page \<Rightarrow> page" where
  "set_details_hidden b w = emit (SetHidden Details b) (w\<lparr>details_hidden := b\<rparr>)"

definition set_actions_hidden :: "bool \<Rightarrow> page \<Rightarrow> page" where
  "set_actions_hidden b w = emit (SetHidden Actions b) (w\<lparr>actions_hidden := b\<rparr>)"

definition set_retry_disabled :: "bool \<Rightarrow> page \<Rightarrow> page" where
  "set_retry_disabled b w = emit (SetRetryDisabled b) (w\<lparr>retry_disabled := b\<rparr>)"

definition setLoaderMode :: "page \<Rightarrow> page" where
  "setLoaderMode w = set_retry_disabled True (set_actions_hidden True (set_details_hidden True w))"

definition setErrorMode :: "string \<Rightarrow> page \<Rightarrow> page" where
  "setErrorMode message w =
     set_retry_disabled False
       (set_actions_hidden False (set_details_hidden False (setDetails message w)))"

definition ensureMainWindowVisible :: "backend \<Rightarrow> unit promise" where
  "ensureMainWindowVisible be w =
     (if windowVisible w then fulfilled w
      else try_catch
             (await (invoke be show_main_window) (\<lambda>_ w'. fulfilled (w'\<lparr>windowVisible := True\<rparr>)))
             (\<lambda>_. fulfilled) w)"

definition openRemoteApp :: "backend \<Rightarrow> unit promise" where
  "openRemoteApp be w =
     try_catch
       (invoke be launch_app)
       (\<lambda>error. await (ensureMainWindowVisible be)
          (\<lambda>_ w'. fulfilled (setErrorMode error (setStatus Error ''Could not open the app.'' w'))))
       (setLoaderMode (setStatus Loading ''Opening remote app...'' w))"

definition retryConnection :: "backend \<Rightarrow> unit promise" where
  "retryConnection be w =
     try_catch
       (invoke be retry_connect)
       (\<lambda>error. await (ensureMainWindowVisible be)
          (\<lambda>_ w'. fulfilled (setErrorMode error (setStatus Error ''Server is still unreachable.'' w'))))
       (setLoaderMode (setStatus Loading ''Retrying connection...'' w))"

text \<open>
  The message of a failed parity check, with both hashes (main.ts, lines 188-191). The
  line break of the template literal is the character 10.
\<close>

definition withHints :: "BootstrapState \<Rightarrow> string" where
  "withHints state =
     nullish_or (build_parity_error state)
         ''Server build is older than required for this CRA Client.''
       @ CHR 0x0A # ''Connected build: '' @ nullish_or (web_build_hash state) ''-''
       @ CHR 0x0A # ''Required build: '' @ nullish_or (required_web_build_hash state) ''-''"

text \<open>
  The dispatch on the snapshot: the body of \<^verbatim>\<open>bootstrap\<close> from the configuration test to the
  unreachable screen (main.ts, lines 178-211). Each \<^verbatim>\<open>return\<close> ends its branch.
\<close>

definition bootstrap_dispatch :: "backend \<Rightarrow> BootstrapState \<Rightarrow> unit promise" where
  "bootstrap_dispatch be state w =
     (if \<not> ready state \<or> truthy (config_error state) then
        await (ensureMainWindowVisible be)
          (\<lambda>_ w'. fulfilled
             (set_retry_disabled True
               (setErrorMode
                 (nullish_or (config_error state) ''Runtime configuration is incomplete.'')
                 (setStatus Error ''Configuration error'' w')))) w
      else if reachable state then
        (if \<not> build_parity_ok state then
           (if enforce_web_build state then
              await (ensureMainWindowVisible be)
                (\<lambda>_ w'. fulfilled
                   (setErrorMode (withHints state)
                     (setStatus Error ''Build parity check failed'' w'))) w
            else
              openRemoteApp be
                (set_details_hidden False
                  (setDetails (withHints state)
                    (setStatus Warning ''Build parity warning'' w))))
         else openRemoteApp be w)
      else
        await (ensureMainWindowVisible be)
          (\<lambda>_ w'. fulfilled
             (setErrorMode
               (nullish_or (reachability_error state) ''The server did not respond.'')
               (setStatus Error ''Server unreachable'' w'))) w)"

text \<open>
  \<^verbatim>\<open>bootstrap\<close> as a whole (main.ts, lines 169-217). The bullet of the subtitle is U+2022, here
  its three bytes in UTF-8.
\<close>

definition bootstrap :: "backend \<Rightarrow> unit promise" where
  "bootstrap be w =
     try_catch
       (await (invoke_bootstrap_state be)
          (\<lambda>state w'. bootstrap_dispatch be state
             (set_subtitle
               (''Version '' @ version state @ '' '' @ [CHR 0xE2, CHR 0x80, CHR 0xA2] @ '' Web ''
                  @ nullish_or (web_build_hash state) ''-'') w')))
       (\<lambda>error. await (ensureMainWindowVisible be)
          (\<lambda>_ w'. fulfilled (setErrorMode error (setStatus Error ''Bootstrap failed'' w'))))
       (setLoaderMode (setStatus Loading ''Checking configuration...'' w))"

subsection \<open>The page session\<close>

text \<open>
  The two entry points that reach \<^verbatim>\<open>ensureMainWindowVisible\<close>: \<^verbatim>\<open>void bootstrap()\<close> when the page
  loads and \<^verbatim>\<open>void retryConnection()\<close> on a click of the retry button (main.ts, lines
  219-227). \<^verbatim>\<open>void\<close> drops the promise. A session is any sequence of the two, each handler
  running to completion before the next starts. The about dialog neither reads nor writes
  \<^verbatim>\<open>windowVisible\<close> and never invokes \<^verbatim>\<open>show_main_window\<close>.
\<close>

datatype action = RunBootstrap | RetryClick

fun handle :: "backend \<Rightarrow> action \<Rightarrow> page \<Rightarrow> page" where
  "handle be RunBootstrap w = snd (bootstrap be w)"
| "handle be RetryClick w = snd (retryConnection be w)"

fun session :: "backend \<Rightarrow> action list \<Rightarrow> page \<Rightarrow> page" where
  "session be [] w = w"
| "session be (a # as) w = session be as (handle be a w)"

text \<open>What one run added to the history, and how often a command was fulfilled in it.\<close>

definition run_events :: "page \<Rightarrow> page \<Rightarrow> event list" where
  "run_events w w' = drop (length (trace w)) (trace w')"

definition successes :: "command \<Rightarrow> event list \<Rightarrow> nat" where
  "successes c evs = length (filter (\<lambda>e. e = Invoke c True) evs)"

section \<open>The legacy bootstrap screen (src/unnamed/part_002)\<close>

text \<open>
  The screen before the parity gate. \<^verbatim>\<open>setStatus\<close> and \<^verbatim>\<open>setDetails\<close> are the same functions as
  above; there is no loader or error mode, and the main window is never shown by a command.
\<close>

definition legacy_openRemoteApp :: "backend \<Rightarrow> unit promise" where
  "legacy_openRemoteApp be w =
     try_catch
       (invoke be launch_app)
       (\<lambda>error w'. fulfilled
          (set_retry_disabled False
            (setDetails error (setStatus Error ''Could not open the app.'' w'))))
       (set_retry_disabled True
         (setDetails ''Please wait while the desktop client switches to the web application.''
           (setStatus Loading ''Opening remote app...'' w)))"

text \<open>The dispatch of the legacy \<^verbatim>\<open>bootstrap\<close> (part_002, lines 125-139).\<close>

definition legacy_bootstrap_dispatch ::
    "backend \<Rightarrow> 'a LegacyBootstrapState_scheme \<Rightarrow> unit promise" where
  "legacy_bootstrap_dispatch be state w =
     (if \<not> ready state \<or> truthy (config_error state) then
        fulfilled
          (set_retry_disabled True
            (setDetails
              (nullish_or (config_error state) ''Runtime configuration is incomplete.'')
              (setStatus Error ''Configuration error'' w)))
      else if reachable state then legacy_openRemoteApp be w
      else
        fulfilled
          (set_retry_disabled False
            (setDetails
              (nullish_or (reachability_error state) ''The server did not respond.'')
              (setStatus Error ''Server unreachable'' w))))"

definition legacy_bootstrap :: "backend \<Rightarrow> unit promise" where
  "legacy_bootstrap be w =
     try_catch
       (await (invoke_bootstrap_state be)
          (\<lambda>state w'. legacy_bootstrap_dispatch be state
             (set_subtitle (''Version '' @ version state) w')))
       (\<lambda>error w'. fulfilled
          (set_retry_disabled False (setDetails error (setStatus Error ''Bootstrap failed'' w'))))
       (setDetails ''Loading runtime settings and validating connectivity.''
         (setStatus Loading ''Checking configuration...'' w))"

text \<open>
  What a run leaves for the user, common to both screens: the status banner, the message under
  it when the banner is an error, the retry button, and the settled invocations of
  \<^verbatim>\<open>launch_app\<close>.
\<close>

fun launch_results :: "event list \<Rightarrow> bool list" where
  "launch_results [] = []"
| "launch_results (Invoke c ok # evs) =
     (if c = launch_app then ok # launch_results evs else launch_results evs)"
| "launch_results (_ # evs) = launch_results evs"

definition outcome :: "page \<Rightarrow> page \<Rightarrow> status_kind \<times> string \<times> string option \<times> bool \<times> bool list" where
  "outcome w w' =
     (status_className w', status_textContent w',
      (if status_className w' = Error then Some (details_textContent w') else None),
      retry_disabled w', launch_results (run_events w w'))"

section \<open>The backend stages\<close>

text \<open>
  The resolver, the parity checker and the navigation guard live in the backend of the
  application; the sources hold the screen (main.ts) and the README only. The three stages
  are modelled from the design document.
\<close>

subsection \<open>Comparison of hosts and hashes\<close>

text \<open>
  Modelled from the spec: the case-insensitive comparison used by the parity checker and the
  navigation guard (backend code, missing). Hashes and hosts are ASCII; the letters A-Z are
  folded to a-z and every other character is kept.
\<close>

definition to_lower :: "char \<Rightarrow> char" where
  "to_lower c =
     (let n = (of_char c :: nat) in if 65 \<le> n \<and> n \<le> 90 then char_of (n + 32) else c)"

text \<open>
  Modelled from the spec: the case-insensitive form of a host or a hash (backend code,
  missing): every character lower-cased.
\<close>

definition lower :: "string \<Rightarrow> string" where
  "lower s = map to_lower s"

subsection \<open>BuildParityChecker (spec 4.4)\<close>

text \<open>
  Modelled from the spec: the remote descriptor \<^verbatim>\<open>{ build: { hash, time }, git: { hash } }\<close>
  (backend type, missing); an absent member is \<open>None\<close>.
\<close>

record DeployInfo =
  build_hash :: "string option"
  build_time :: "string option"
  git_hash :: "string option"

text \<open>
  Modelled from the spec: the result of the check, \<^verbatim>\<open>{ build_hash, build_time, ok, error }\<close>
  (backend type, missing).
\<close>

record ParityResult =
  result_build_hash :: "string option"
  result_build_time :: "string option"
  ok :: bool
  error :: "string option"

text \<open>
  Modelled from the spec: \<^verbatim>\<open>observed = build.hash, falling back to git.hash if build.hash absent\<close>
  (backend code, missing).
\<close>

definition observed :: "DeployInfo \<Rightarrow> string option" where
  "observed info = (case build_hash info of Some h \<Rightarrow> Some h | None \<Rightarrow> git_hash info)"

text \<open>
  Modelled from the spec: \<^verbatim>\<open>check(url, min_hash, enforce)\<close> of the BuildParityChecker (backend
  code, missing). The request to the diagnostic path of \<^verbatim>\<open>url\<close> is outside the model; its
  result is the first argument, \<open>Inl cause\<close> for a fetch or parse failure. \<open>ok = true\<close> when
  \<open>min_hash\<close> is unset, or \<open>observed\<close> (case-insensitive) starts with \<open>min_hash\<close>; on a failure
  \<open>ok = false\<close> and \<open>error\<close> records the cause; \<open>enforce\<close> does not change \<open>ok\<close>.
\<close>

definition check :: "string + DeployInfo \<Rightarrow> string option \<Rightarrow> bool \<Rightarrow> ParityResult" where
  "check fetched min_hash enforce =
     (case fetched of
        Inl cause \<Rightarrow>
          \<lparr>result_build_hash = None, result_build_time = None, ok = False, error = Some cause\<rparr>
      | Inr info \<Rightarrow>
          \<lparr>result_build_hash = observed info,
           result_build_time = build_time info,
           ok = (case min_hash of
                   None \<Rightarrow> True
                 | Some m \<Rightarrow>
                     (case observed info of
                        None \<Rightarrow> False
                      | Some h \<Rightarrow> prefix (lower m) (lower h))),
           error = None\<rparr>)"

subsection \<open>NavigationGuard (spec 4.5)\<close>

text \<open>
  Modelled from the spec: a navigation or request the hosted window attempts, as the host and
  the port of its target (backend type, missing).
\<close>

record request =
  req_host :: string
  req_port :: "nat option"

text \<open>Modelled from the spec: the decision of the guard, \<^verbatim>\<open>Allow | Block\<close> (backend type, missing).\<close>

datatype decision = Allow | Block

text \<open>
  Modelled from the spec: the hosted window (backend state, missing): the page it is on, and
  the targets that were redirected to an external browser.
\<close>

record hosted_window =
  current_page :: request
  redirected_externally :: "request list"

text \<open>
  Modelled from the spec: the NavigationGuard (backend code, missing) decides \<^verbatim>\<open>Allow | Block\<close> by
  comparing the request's host against \<^verbatim>\<open>allowed_hosts\<close>: exact host match, case-insensitive,
  port ignored.
\<close>

definition navigation_guard :: "string list \<Rightarrow> request \<Rightarrow> decision" where
  "navigation_guard allowed_hosts req =
     (if lower (req_host req) \<in> set (map lower allowed_hosts) then Allow else Block)"

text \<open>
  Modelled from the spec: what a navigation does to the window (backend code, missing).
  \<^verbatim>\<open>Block\<close> keeps the window on its current page and does not redirect externally; an allowed
  navigation moves the window to the target.
\<close>

definition navigate :: "string list \<Rightarrow> hosted_window \<Rightarrow> request \<Rightarrow> hosted_window" where
  "navigate allowed_hosts win req =
     (case navigation_guard allowed_hosts req of
        Allow \<Rightarrow> win\<lparr>current_page := req\<rparr>
      | Block \<Rightarrow> win)"

subsection \<open>ConfigSource Resolver (spec 3 and 4.1)\<close>

text \<open>
  Modelled from the spec: the recognised keys of the configuration (spec 6; backend type,
  missing).
\<close>

datatype config_key =
    APP_URL | ALLOWED_HOSTS | WINDOW_TITLE | WINDOW_WIDTH | WINDOW_HEIGHT
  | MIN_WEB_BUILD_HASH | ENFORCE_WEB_BUILD | ALLOW_LOCALHOST_RELEASE

text \<open>
  Modelled from the spec: what one source yields, a partial key/value mapping (backend type,
  missing).
\<close>

type_synonym config_source = "config_key \<rightharpoonup> string"

text \<open>
  Modelled from the spec: the four ranked origins (backend type, missing), highest precedence
  first: namespaced process environment variables, the file in the working directory, the
  file next to the executable and the per-user app-data file. How one source reads its names,
  and the first-run creation and the migration of the app-data file, come before and are not
  part of this model.
\<close>

record config_sources =
  process_env :: config_source
  cwd_file :: config_source
  exe_file :: config_source
  appdata_file :: config_source

text \<open>
  Modelled from the spec: one step of the resolver's walk (backend code, missing): for each
  key not yet resolved, take the value the source defines.
\<close>

definition take_unresolved :: "config_source \<Rightarrow> config_source \<Rightarrow> config_source" where
  "take_unresolved resolved src =
     (\<lambda>k. case resolved k of Some v \<Rightarrow> Some v | None \<Rightarrow> src k)"

text \<open>
  Modelled from the spec: the resolver's walk (backend code, missing): iterate the four sources
  in fixed precedence order; for each key not yet resolved, take the value from the first
  source (in order) that defines it.
\<close>

definition resolve :: "config_sources \<Rightarrow> config_source" where
  "resolve srcs =
     foldl take_unresolved Map.empty
       [process_env srcs, cwd_file srcs, exe_file srcs, appdata_file srcs]"

section \<open>Concrete runs\<close>

text \<open>
  A snapshot of the deployment of the README (\<^verbatim>\<open>http://192.168.50.55:3000\<close>) whose server reports
  build \<^verbatim>\<open>1111111\<close> while \<^verbatim>\<open>aacb669\<close> is required, and the same deployment with the server down.
\<close>

definition stale_server_state :: BootstrapState where
  "stale_server_state =
     \<lparr>ready = True,
      config_error = None,
      app_url = Some ''http://192.168.50.55:3000'',
      app_host = Some ''192.168.50.55'',
      window_title = ''CRA Client'',
      window_width = 1280,
      window_height = 800,
      version = ''0.1.14'',
      reachable = True,
      reachability_error = None,
      web_build_hash = Some ''1111111'',
      web_build_time = None,
      required_web_build_hash = Some ''aacb669'',
      build_parity_ok = False,
      build_parity_error = None,
      enforce_web_build = True\<rparr>"

definition offline_state :: BootstrapState where
  "offline_state =
     \<lparr>ready = True,
      config_error = None,
      app_url = Some ''http://192.168.50.55:3000'',
      app_host = Some ''192.168.50.55'',
      window_title = ''CRA Client'',
      window_width = 1280,
      window_height = 800,
      version = ''0.1.14'',
      reachable = False,
      reachability_error = Some ''Could not reach server at http://192.168.50.55:3000'',
      web_build_hash = None,
      web_build_time = None,
      required_web_build_hash = Some ''aacb669'',
      build_parity_ok = False,
      build_parity_error = None,
      enforce_web_build = True\<rparr>"

text \<open>A snapshot that is ready and in order, except that its \<^verbatim>\<open>config_error\<close> is the empty string.\<close>

definition blank_error_state :: BootstrapState where
  "blank_error_state =
     \<lparr>ready = True,
      config_error = Some [],
      app_url = Some ''http://192.168.50.55:3000'',
      app_host = Some ''192.168.50.55'',
      window_title = ''CRA Client'',
      window_width = 1280,
      window_height = 800,
      version = ''0.1.14'',
      reachable = True,
      reachability_error = None,
      web_build_hash = Some ''aacb669123'',
      web_build_time = None,
      required_web_build_hash = Some ''aacb669'',
      build_parity_ok = True,
      build_parity_error = None,
      enforce_web_build = True\<rparr>"

text \<open>
  A backend that fulfils every command, and one whose server stays down: it fulfils
  \<^verbatim>\<open>show_main_window\<close> and rejects every \<^verbatim>\<open>retry_connect\<close>.
\<close>

definition willing_backend :: "BootstrapState \<Rightarrow> backend" where
  "willing_backend state =
     \<lparr>command_reply = (\<lambda>c n. None), bootstrap_state_reply = (\<lambda>n. Inr state)\<rparr>"

definition offline_backend :: backend where
  "offline_backend =
     \<lparr>command_reply =
        (\<lambda>c n. if c = retry_connect
               then Some ''Could not reach server at http://192.168.50.55:3000'' else None),
      bootstrap_state_reply = (\<lambda>n. Inr offline_state)\<rparr>"

text \<open>
  The invariant of a page session: \<^verbatim>\<open>show_main_window\<close> has been fulfilled once if
  \<^verbatim>\<open>windowVisible\<close> is set, and never otherwise.
\<close>

definition shown_once :: "page \<Rightarrow> bool" where
  "shown_once w \<longleftrightarrow>
     successes show_main_window (trace w) = (if windowVisible w then 1 else 0)"

section \<open>Properties of the bootstrap screen\<close>

subsection \<open>Auxiliary facts\<close>

lemmas page_writes =
  emit_def setStatus_def setDetails_def set_subtitle_def set_details_hidden_def
  set_actions_hidden_def set_retry_disabled_def setLoaderMode_def setErrorMode_def

lemmas promise_steps = fulfilled_def await_def try_catch_def invoke_def

lemmas dispatch_steps =
  bootstrap_dispatch_def openRemoteApp_def ensureMainWindowVisible_def page_writes promise_steps
  truthy_def invocations_def run_events_def

lemma ensureMainWindowVisible_fulfilled: "fst (ensureMainWindowVisible be w) = Inr ()"
  by (simp add: ensureMainWindowVisible_def promise_steps split: option.splits)

lemma openRemoteApp_fulfilled: "fst (openRemoteApp be w) = Inr ()"
  by (simp add: openRemoteApp_def ensureMainWindowVisible_def promise_steps split: option.splits)

lemma bootstrap_dispatch_fulfilled: "fst (bootstrap_dispatch be state w) = Inr ()"
  by (simp add: bootstrap_dispatch_def openRemoteApp_fulfilled)
     (simp add: ensureMainWindowVisible_def promise_steps split: option.splits)

text \<open>
  When the backend answers \<^verbatim>\<open>bootstrap_state\<close> with a snapshot, \<^verbatim>\<open>bootstrap\<close> writes the subtitle
  and runs the dispatch on that snapshot; its \<^verbatim>\<open>catch\<close> is not entered.
\<close>

lemma bootstrap_runs_dispatch:
  assumes "bootstrap_state_reply be (invocations bootstrap_state (trace w)) = Inr state"
  shows "bootstrap be w =
     bootstrap_dispatch be state
       (set_subtitle
         (''Version '' @ version state @ '' '' @ [CHR 0xE2, CHR 0x80, CHR 0xA2] @ '' Web ''
            @ nullish_or (web_build_hash state) ''-'')
         (emit (Invoke bootstrap_state True)
           (setLoaderMode (setStatus Loading ''Checking configuration...'' w))))"
proof -
  let ?w1 = "setLoaderMode (setStatus Loading ''Checking configuration...'' w)"
  have "invocations bootstrap_state (trace ?w1) = invocations bootstrap_state (trace w)"
    by (simp add: page_writes invocations_def)
  with assms have "invoke_bootstrap_state be ?w1 = (Inr state, emit (Invoke bootstrap_state True) ?w1)"
    by (simp add: invoke_bootstrap_state_def)
  then show ?thesis
    using bootstrap_dispatch_fulfilled
    by (simp add: bootstrap_def try_catch_def await_def split: prod.splits sum.splits)
       (metis fst_conv sum.distinct(1))
qed

subsection \<open>The parity gate\<close>

text \<open>
  Claim C1. On a snapshot that is ready, without configuration error, reachable, and whose
  parity check failed, \<^verbatim>\<open>enforce_web_build\<close> decides. If it is set, the run ends on the error
  banner "Build parity check failed" with the hints as details, the details and the actions
  visible and the retry button enabled, and \<^verbatim>\<open>launch_app\<close> is not invoked. If it is not set,
  the run writes the warning banner and the hints and unhides the details, and then opens the
  remote application: the loader mode (which hides the details again) followed by one
  invocation of \<^verbatim>\<open>launch_app\<close>.
\<close>

theorem parity_failure_dispatch:
  assumes "ready s" and "config_error s = None" and "reachable s" and "\<not> build_parity_ok s"
  shows "case bootstrap_dispatch be s w of (r, w') \<Rightarrow>
     (if enforce_web_build s then
        r = Inr () \<and> status_className w' = Error
        \<and> status_textContent w' = ''Build parity check failed''
        \<and> details_textContent w' = withHints s
        \<and> \<not> details_hidden w' \<and> \<not> actions_hidden w' \<and> \<not> retry_disabled w'
        \<and> invocations launch_app (run_events w w') = 0
      else
        prefix
          [SetStatus Warning ''Build parity warning'', SetDetails (withHints s),
           SetHidden Details False,
           SetStatus Loading ''Opening remote app...'', SetHidden Details True,
           SetHidden Actions True, SetRetryDisabled True,
           Invoke launch_app (command_reply be launch_app (invocations launch_app (trace w)) = None)]
          (run_events w w')
        \<and> invocations launch_app (run_events w w') = 1)"
  using assms by (simp add: dispatch_steps split: option.splits)

theorem parity_failure_dispatch_witness:
  "ready stale_server_state \<and> config_error stale_server_state = None
   \<and> reachable stale_server_state \<and> \<not> build_parity_ok stale_server_state
   \<and> enforce_web_build stale_server_state
   \<and> (case bootstrap_dispatch (willing_backend stale_server_state) stale_server_state initial_page
       of (r, w') \<Rightarrow>
         status_textContent w' = ''Build parity check failed'' \<and> \<not> retry_disabled w'
         \<and> invocations launch_app (run_events initial_page w') = 0)
   \<and> \<not> enforce_web_build (stale_server_state\<lparr>enforce_web_build := False\<rparr>)
   \<and> (case bootstrap_dispatch (willing_backend stale_server_state)
              (stale_server_state\<lparr>enforce_web_build := False\<rparr>) initial_page
       of (r, w') \<Rightarrow> invocations launch_app (run_events initial_page w') = 1)"
proof -
  let ?s = "stale_server_state\<lparr>enforce_web_build := False\<rparr>"
  have h: "ready stale_server_state" "config_error stale_server_state = None"
    "reachable stale_server_state" "\<not> build_parity_ok stale_server_state"
    "enforce_web_build stale_server_state"
    by (simp_all add: stale_server_state_def)
  have h': "ready ?s" "config_error ?s = None" "reachable ?s" "\<not> build_parity_ok ?s"
    "\<not> enforce_web_build ?s"
    by (simp_all add: stale_server_state_def)
  show ?thesis
    using h h'(5)
      parity_failure_dispatch
        [where be = "willing_backend stale_server_state" and w = initial_page, OF h(1-4)]
      parity_failure_dispatch
        [where be = "willing_backend stale_server_state" and w = initial_page, OF h'(1-4)]
    by (simp split: prod.splits)
qed

text \<open>
  Claim C7. On a snapshot that is ready, without configuration error, reachable, and whose
  parity check passed, the dispatch opens the remote application directly: the first writes
  of the run are the loading banner and the loader mode, followed by the one invocation of
  \<^verbatim>\<open>launch_app\<close>; no warning and no error is written before it.
\<close>

theorem parity_ok_dispatch:
  assumes "ready s" and "config_error s = None" and "reachable s" and "build_parity_ok s"
  shows "case bootstrap_dispatch be s w of (r, w') \<Rightarrow>
     r = Inr ()
     \<and> prefix
         [SetStatus Loading ''Opening remote app...'', SetHidden Details True,
          SetHidden Actions True, SetRetryDisabled True,
          Invoke launch_app (command_reply be launch_app (invocations launch_app (trace w)) = None)]
         (run_events w w')
     \<and> invocations launch_app (run_events w w') = 1"
  using assms by (simp add: dispatch_steps split: option.splits)

theorem parity_ok_dispatch_witness:
  "ready (stale_server_state\<lparr>build_parity_ok := True\<rparr>)
   \<and> config_error (stale_server_state\<lparr>build_parity_ok := True\<rparr>) = None
   \<and> reachable (stale_server_state\<lparr>build_parity_ok := True\<rparr>)
   \<and> build_parity_ok (stale_server_state\<lparr>build_parity_ok := True\<rparr>)
   \<and> (case bootstrap_dispatch (willing_backend stale_server_state)
              (stale_server_state\<lparr>build_parity_ok := True\<rparr>) initial_page
       of (r, w') \<Rightarrow>
         run_events initial_page w' =
           [SetStatus Loading ''Opening remote app...'', SetHidden Details True,
            SetHidden Actions True, SetRetryDisabled True, Invoke launch_app True])"
proof -
  let ?s = "stale_server_state\<lparr>build_parity_ok := True\<rparr>"
  have h: "ready ?s" "config_error ?s = None" "reachable ?s" "build_parity_ok ?s"
    by (simp_all add: stale_server_state_def)
  have "length (run_events initial_page
          (snd (bootstrap_dispatch (willing_backend stale_server_state) ?s initial_page))) = 5"
    using h by (simp add: dispatch_steps willing_backend_def initial_page_def)
  then show ?thesis
    using h parity_ok_dispatch
        [where be = "willing_backend stale_server_state" and w = initial_page, OF h]
    by (auto simp add: willing_backend_def initial_page_def invocations_def prefix_def
        split: prod.splits)
qed

subsection \<open>Configuration errors\<close>

text \<open>
  Claim C3, as amended. The test of the code is \<^verbatim>\<open>!state.ready || state.config_error\<close>, and an
  empty string is falsy. On a snapshot that is not ready, or whose \<^verbatim>\<open>config_error\<close> is a
  non-empty string, the run ends on the error banner "Configuration error" with
  \<^verbatim>\<open>config_error\<close> (or the default message, when it is null) as details, the retry button
  disabled, and \<^verbatim>\<open>launch_app\<close> is not invoked.
\<close>

theorem config_failure_dispatch:
  assumes "\<not> ready s \<or> (\<exists>e. config_error s = Some e \<and> e \<noteq> [])"
  shows "case bootstrap_dispatch be s w of (r, w') \<Rightarrow>
     r = Inr () \<and> status_className w' = Error
     \<and> status_textContent w' = ''Configuration error''
     \<and> details_textContent w' =
         nullish_or (config_error s) ''Runtime configuration is incomplete.''
     \<and> \<not> details_hidden w' \<and> \<not> actions_hidden w' \<and> retry_disabled w'
     \<and> invocations launch_app (run_events w w') = 0"
proof -
  from assms have "\<not> ready s \<or> truthy (config_error s)"
    by (auto simp: truthy_def)
  then show ?thesis
    by (simp add: bootstrap_dispatch_def ensureMainWindowVisible_def page_writes promise_steps
        invocations_def run_events_def split: option.splits)
qed

theorem config_failure_dispatch_witness:
  "config_error (stale_server_state\<lparr>config_error := Some ''APP_URL is missing''\<rparr>)
     = Some ''APP_URL is missing''
   \<and> ''APP_URL is missing'' \<noteq> []
   \<and> (case bootstrap_dispatch (willing_backend stale_server_state)
              (stale_server_state\<lparr>config_error := Some ''APP_URL is missing''\<rparr>) initial_page
       of (r, w') \<Rightarrow>
         status_textContent w' = ''Configuration error''
         \<and> details_textContent w' = ''APP_URL is missing'' \<and> retry_disabled w'
         \<and> invocations launch_app (run_events initial_page w') = 0)"
proof -
  let ?s = "stale_server_state\<lparr>config_error := Some ''APP_URL is missing''\<rparr>"
  have h: "\<not> ready ?s \<or> (\<exists>e. config_error ?s = Some e \<and> e \<noteq> [])"
    by simp
  show ?thesis
    using config_failure_dispatch
        [where be = "willing_backend stale_server_state" and w = initial_page, OF h]
    by (simp add: nullish_or_def split: prod.splits)
qed

text \<open>
  The claim as it was stated, with "\<^verbatim>\<open>config_error\<close> non-null", fails on the empty string: the
  snapshot \<open>blank_error_state\<close> has a non-null \<^verbatim>\<open>config_error\<close>, and the run does not end on the
  configuration error but invokes \<^verbatim>\<open>launch_app\<close>.
\<close>

theorem config_failure_dispatch_counterexample:
  "config_error blank_error_state \<noteq> None
   \<and> status_textContent
        (snd (bootstrap_dispatch (willing_backend blank_error_state) blank_error_state initial_page))
       \<noteq> ''Configuration error''
   \<and> invocations launch_app
        (run_events initial_page
          (snd (bootstrap_dispatch (willing_backend blank_error_state) blank_error_state
                 initial_page))) = 1"
  by (simp add: dispatch_steps blank_error_state_def willing_backend_def initial_page_def)

subsection \<open>Unreachable server\<close>

text \<open>
  Claim C4. On a snapshot that is ready, without configuration error, and not reachable, the
  run ends on the error banner "Server unreachable" with \<^verbatim>\<open>reachability_error\<close> (or the default
  message) as details and the retry button enabled, \<^verbatim>\<open>launch_app\<close> is not invoked, and the six
  fields of the parity gate are not consulted: whatever they are replaced with, the dispatch
  does the same. (The subtitle, which \<^verbatim>\<open>bootstrap\<close> writes before the dispatch, shows
  \<^verbatim>\<open>web_build_hash\<close> in every case.)
\<close>

theorem unreachable_dispatch:
  assumes "ready s" and "config_error s = None" and "\<not> reachable s"
  shows "(case bootstrap_dispatch be s w of (r, w') \<Rightarrow>
       r = Inr () \<and> status_className w' = Error
       \<and> status_textContent w' = ''Server unreachable''
       \<and> details_textContent w' =
           nullish_or (reachability_error s) ''The server did not respond.''
       \<and> \<not> details_hidden w' \<and> \<not> actions_hidden w' \<and> \<not> retry_disabled w'
       \<and> invocations launch_app (run_events w w') = 0)
     \<and> bootstrap_dispatch be
         (s\<lparr>web_build_hash := h, web_build_time := t, required_web_build_hash := m,
            build_parity_ok := p, build_parity_error := e, enforce_web_build := f\<rparr>) w
       = bootstrap_dispatch be s w"
  using assms
  by (simp add: bootstrap_dispatch_def ensureMainWindowVisible_def page_writes promise_steps
      truthy_def invocations_def run_events_def split: option.splits)

theorem unreachable_dispatch_witness:
  "ready offline_state \<and> config_error offline_state = None \<and> \<not> reachable offline_state
   \<and> (case bootstrap_dispatch offline_backend offline_state initial_page of (r, w') \<Rightarrow>
         status_textContent w' = ''Server unreachable''
         \<and> details_textContent w' = ''Could not reach server at http://192.168.50.55:3000''
         \<and> \<not> retry_disabled w'
         \<and> invocations launch_app (run_events initial_page w') = 0)
   \<and> bootstrap_dispatch offline_backend
        (offline_state\<lparr>web_build_hash := Some ''aacb669123'', web_build_time := None,
           required_web_build_hash := None, build_parity_ok := True,
           build_parity_error := None, enforce_web_build := False\<rparr>) initial_page
      = bootstrap_dispatch offline_backend offline_state initial_page"
proof -
  have h: "ready offline_state" "config_error offline_state = None" "\<not> reachable offline_state"
    by (simp_all add: offline_state_def)
  have d: "nullish_or (reachability_error offline_state) ''The server did not respond.''
      = ''Could not reach server at http://192.168.50.55:3000''"
    by (simp add: offline_state_def nullish_or_def)
  show ?thesis
    using h unreachable_dispatch
        [where be = offline_backend and w = initial_page and h = "Some ''aacb669123''"
           and t = None and m = None and p = True and e = None and f = False, OF h]
    by (simp add: d split: prod.splits)
qed

subsection \<open>The hints of a parity failure\<close>

lemma sublist_middle: "sublist b (a @ b @ c)"
  unfolding sublist_def by blast

lemma connected_build_in_hints:
  "sublist (''Connected build: '' @ nullish_or (web_build_hash s) ''-'') (withHints s)"
proof -
  have "withHints s =
      (nullish_or (build_parity_error s)
           ''Server build is older than required for this CRA Client.'' @ [CHR 0x0A])
      @ (''Connected build: '' @ nullish_or (web_build_hash s) ''-'')
      @ (CHR 0x0A # ''Required build: '' @ nullish_or (required_web_build_hash s) ''-'')"
    by (simp add: withHints_def)
  then show ?thesis
    by (simp only: sublist_middle)
qed

lemma required_build_in_hints:
  "sublist (''Required build: '' @ nullish_or (required_web_build_hash s) ''-'') (withHints s)"
proof -
  have "withHints s =
      (nullish_or (build_parity_error s)
           ''Server build is older than required for this CRA Client.''
         @ CHR 0x0A # ''Connected build: '' @ nullish_or (web_build_hash s) ''-'' @ [CHR 0x0A])
      @ (''Required build: '' @ nullish_or (required_web_build_hash s) ''-'') @ []"
    by (simp add: withHints_def)
  then show ?thesis
    by (simp only: sublist_middle)
qed

text \<open>
  Claim C8. On a snapshot whose parity check failed, the message written to the details, both
  under the blocking error banner and under the warning banner, is \<open>withHints\<close>; it contains
  "Connected build: " followed by \<^verbatim>\<open>web_build_hash\<close> and "Required build: " followed by
  \<^verbatim>\<open>required_web_build_hash\<close>, each replaced by "-" when it is null or undefined.
\<close>

theorem parity_messages_name_both_builds:
  assumes "ready s" and "config_error s = None" and "reachable s" and "\<not> build_parity_ok s"
  shows "case bootstrap_dispatch be s w of (r, w') \<Rightarrow>
     sublist (''Connected build: '' @ (case web_build_hash s of None \<Rightarrow> ''-'' | Some h \<Rightarrow> h))
       (withHints s)
     \<and> sublist
         (''Required build: '' @ (case required_web_build_hash s of None \<Rightarrow> ''-'' | Some h \<Rightarrow> h))
         (withHints s)
     \<and> (if enforce_web_build s then
          status_className w' = Error \<and> status_textContent w' = ''Build parity check failed''
          \<and> details_textContent w' = withHints s \<and> \<not> details_hidden w'
        else
          prefix
            [SetStatus Warning ''Build parity warning'', SetDetails (withHints s),
             SetHidden Details False]
            (run_events w w'))"
proof -
  have "case bootstrap_dispatch be s w of (r, w') \<Rightarrow>
     (if enforce_web_build s then
        status_className w' = Error \<and> status_textContent w' = ''Build parity check failed''
        \<and> details_textContent w' = withHints s \<and> \<not> details_hidden w'
      else
        prefix
          [SetStatus Warning ''Build parity warning'', SetDetails (withHints s),
           SetHidden Details False]
          (run_events w w'))"
    using assms
    by (simp add: bootstrap_dispatch_def openRemoteApp_def ensureMainWindowVisible_def
        page_writes promise_steps truthy_def run_events_def split: option.splits)
  then show ?thesis
    using connected_build_in_hints [of s] required_build_in_hints [of s]
    by (simp add: nullish_or_def split: prod.splits)
qed

theorem parity_messages_name_both_builds_witness:
  "ready stale_server_state \<and> config_error stale_server_state = None
   \<and> reachable stale_server_state \<and> \<not> build_parity_ok stale_server_state
   \<and> withHints stale_server_state =
       ''Server build is older than required for this CRA Client.''
         @ CHR 0x0A # ''Connected build: 1111111'' @ CHR 0x0A # ''Required build: aacb669''
   \<and> sublist ''Connected build: 1111111'' (withHints stale_server_state)
   \<and> sublist ''Required build: aacb669'' (withHints stale_server_state)
   \<and> details_textContent
        (snd (bootstrap_dispatch (willing_backend stale_server_state) stale_server_state
               initial_page))
       = withHints stale_server_state"
proof -
  have h: "ready stale_server_state" "config_error stale_server_state = None"
    "reachable stale_server_state" "\<not> build_parity_ok stale_server_state"
    by (simp_all add: stale_server_state_def)
  have v: "web_build_hash stale_server_state = Some ''1111111''"
    "required_web_build_hash stale_server_state = Some ''aacb669''"
    "build_parity_error stale_server_state = None"
    "enforce_web_build stale_server_state"
    by (simp_all add: stale_server_state_def)
  show ?thesis
    using h parity_messages_name_both_builds
        [where be = "willing_backend stale_server_state" and w = initial_page, OF h]
    by (simp add: v withHints_def nullish_or_def split: prod.splits)
qed

subsection \<open>Agreement with the legacy screen\<close>

lemmas legacy_steps =
  legacy_bootstrap_dispatch_def legacy_openRemoteApp_def dispatch_steps outcome_def

text \<open>
  Claim C9, as amended. The configuration test is the same in both screens,
  \<^verbatim>\<open>!state.ready || state.config_error\<close>: it fails the snapshot when it is not ready or its
  \<^verbatim>\<open>config_error\<close> is a non-empty string. On every snapshot whose parity check passed, or
  that fails the configuration test, or that is not reachable, the current dispatch and the
  legacy dispatch settle alike and leave the same outcome (banner, message under an error
  banner, retry button, invocations of \<^verbatim>\<open>launch_app\<close>): the configuration error with retry
  disabled when the configuration test fails; otherwise one invocation of \<^verbatim>\<open>launch_app\<close>
  when reachable (the loading banner if it is fulfilled, the error of the invocation with
  retry enabled if it is rejected); otherwise the unreachable error with retry enabled.
\<close>

theorem legacy_dispatch_agrees:
  assumes "build_parity_ok s \<or> \<not> ready s \<or> truthy (config_error s) \<or> \<not> reachable s"
  shows "fst (bootstrap_dispatch be s w) = fst (legacy_bootstrap_dispatch be s w)
     \<and> outcome w (snd (bootstrap_dispatch be s w))
         = outcome w (snd (legacy_bootstrap_dispatch be s w))
     \<and> outcome w (snd (bootstrap_dispatch be s w)) =
         (if \<not> ready s \<or> truthy (config_error s) then
            (Error, ''Configuration error'',
             Some (nullish_or (config_error s) ''Runtime configuration is incomplete.''),
             True, [])
          else if reachable s then
            (case command_reply be launch_app (invocations launch_app (trace w)) of
               None \<Rightarrow> (Loading, ''Opening remote app...'', None, True, [True])
             | Some e \<Rightarrow> (Error, ''Could not open the app.'', Some e, False, [False]))
          else
            (Error, ''Server unreachable'',
             Some (nullish_or (reachability_error s) ''The server did not respond.''),
             False, []))"
proof -
  consider (config) "\<not> ready s \<or> truthy (config_error s)"
    | (launch) "ready s" "\<not> truthy (config_error s)" "reachable s" "build_parity_ok s"
    | (unreachable) "ready s" "\<not> truthy (config_error s)" "\<not> reachable s"
    using assms by blast
  then show ?thesis
  proof cases
    case config
    then show ?thesis
      by (simp add: legacy_steps split: option.splits)
  next
    case launch
    then show ?thesis
      by (simp add: legacy_steps split: option.splits)
  next
    case unreachable
    then show ?thesis
      by (simp add: legacy_steps split: option.splits)
  qed
qed

theorem legacy_dispatch_agrees_witness:
  "\<not> reachable offline_state
   \<and> outcome initial_page (snd (bootstrap_dispatch offline_backend offline_state initial_page))
       = outcome initial_page
           (snd (legacy_bootstrap_dispatch offline_backend offline_state initial_page))
   \<and> outcome initial_page (snd (bootstrap_dispatch offline_backend offline_state initial_page))
       = (Error, ''Server unreachable'',
          Some ''Could not reach server at http://192.168.50.55:3000'', False, [])"
proof -
  have h: "build_parity_ok offline_state \<or> \<not> ready offline_state
      \<or> truthy (config_error offline_state) \<or> \<not> reachable offline_state"
    by (simp add: offline_state_def)
  have v: "ready offline_state" "\<not> truthy (config_error offline_state)"
    "\<not> reachable offline_state"
    "nullish_or (reachability_error offline_state) ''The server did not respond.''
      = ''Could not reach server at http://192.168.50.55:3000''"
    by (simp_all add: offline_state_def truthy_def nullish_or_def)
  show ?thesis
    using legacy_dispatch_agrees [where be = offline_backend and w = initial_page, OF h]
    by (auto simp add: v)
qed

text \<open>
  With "\<^verbatim>\<open>config_error\<close> is set" read as non-null, the claim fails on the empty string: the
  snapshot below has a non-null \<^verbatim>\<open>config_error\<close> and a failed parity check under enforcement;
  both screens pass it through the configuration test, the legacy screen opens the remote
  application and the current screen blocks on the parity check.
\<close>

theorem legacy_dispatch_agrees_counterexample:
  "config_error (stale_server_state\<lparr>config_error := Some []\<rparr>) \<noteq> None
   \<and> outcome initial_page
        (snd (bootstrap_dispatch (willing_backend stale_server_state)
               (stale_server_state\<lparr>config_error := Some []\<rparr>) initial_page))
       = (Error, ''Build parity check failed'',
          Some (withHints (stale_server_state\<lparr>config_error := Some []\<rparr>)), False, [])
   \<and> outcome initial_page
        (snd (legacy_bootstrap_dispatch (willing_backend stale_server_state)
               (stale_server_state\<lparr>config_error := Some []\<rparr>) initial_page))
       = (Loading, ''Opening remote app...'', None, True, [True])"
  by (simp add: legacy_steps stale_server_state_def willing_backend_def initial_page_def)

subsection \<open>Showing the main window\<close>

lemma shown_once_writes:
  "shown_once (setStatus k m w) = shown_once w"
  "shown_once (setDetails m w) = shown_once w"
  "shown_once (set_subtitle m w) = shown_once w"
  "shown_once (set_details_hidden b w) = shown_once w"
  "shown_once (set_actions_hidden b w) = shown_once w"
  "shown_once (set_retry_disabled b w) = shown_once w"
  "shown_once (setLoaderMode w) = shown_once w"
  "shown_once (setErrorMode m w) = shown_once w"
  by (simp_all add: shown_once_def page_writes successes_def)

lemma shown_once_fulfilled: "shown_once (snd (fulfilled w)) = shown_once w"
  by (simp add: fulfilled_def)

lemma shown_once_invoke:
  "c \<noteq> show_main_window \<Longrightarrow> shown_once (snd (invoke be c w)) = shown_once w"
  by (simp add: invoke_def emit_def shown_once_def successes_def split: option.splits)

lemma shown_once_invoke_bootstrap_state:
  "shown_once (snd (invoke_bootstrap_state be w)) = shown_once w"
  by (simp add: invoke_bootstrap_state_def emit_def shown_once_def successes_def
      split: sum.splits)

lemma shown_once_ensureMainWindowVisible:
  "shown_once w \<Longrightarrow> shown_once (snd (ensureMainWindowVisible be w))"
  by (auto simp add: ensureMainWindowVisible_def promise_steps emit_def shown_once_def
      successes_def split: option.splits if_splits)

lemma shown_once_await:
  assumes "shown_once (snd (p w))"
    and "\<And>x v. shown_once v \<Longrightarrow> shown_once (snd (rest x v))"
  shows "shown_once (snd (await p rest w))"
  using assms by (cases "p w") (auto simp: await_def split: sum.splits)

lemma shown_once_try_catch:
  assumes "shown_once (snd (p w))"
    and "\<And>e v. shown_once v \<Longrightarrow> shown_once (snd (h e v))"
  shows "shown_once (snd (try_catch p h w))"
  using assms by (cases "p w") (auto simp: try_catch_def split: sum.splits)

lemmas shown_once_steps =
  shown_once_writes shown_once_fulfilled shown_once_invoke shown_once_invoke_bootstrap_state
  shown_once_ensureMainWindowVisible

lemma shown_once_openRemoteApp:
  "shown_once w \<Longrightarrow> shown_once (snd (openRemoteApp be w))"
  unfolding openRemoteApp_def
  by (intro shown_once_try_catch shown_once_await) (simp_all add: shown_once_steps)

lemma shown_once_retryConnection:
  "shown_once w \<Longrightarrow> shown_once (snd (retryConnection be w))"
  unfolding retryConnection_def
  by (intro shown_once_try_catch shown_once_await) (simp_all add: shown_once_steps)

lemma shown_once_bootstrap_dispatch:
  "shown_once w \<Longrightarrow> shown_once (snd (bootstrap_dispatch be s w))"
  unfolding bootstrap_dispatch_def
  by (auto intro!: shown_once_await shown_once_openRemoteApp simp: shown_once_steps)

lemma shown_once_bootstrap:
  "shown_once w \<Longrightarrow> shown_once (snd (bootstrap be w))"
  unfolding bootstrap_def
  by (intro shown_once_try_catch shown_once_await shown_once_bootstrap_dispatch)
     (simp_all add: shown_once_steps)

lemma shown_once_session:
  "shown_once w \<Longrightarrow> shown_once (session be acts w)"
proof (induction acts arbitrary: w)
  case Nil
  then show ?case by simp
next
  case (Cons a acts)
  then show ?case
    by (cases a) (simp_all add: shown_once_bootstrap shown_once_retryConnection)
qed

lemma shown_once_initial_page: "shown_once initial_page"
  by (simp add: shown_once_def initial_page_def successes_def)

text \<open>
  Claim C10. \<^verbatim>\<open>ensureMainWindowVisible\<close> is always fulfilled, never rejected. Once
  \<^verbatim>\<open>windowVisible\<close> is set it returns at once, without an invocation; a call in which
  \<^verbatim>\<open>show_main_window\<close> is fulfilled sets \<^verbatim>\<open>windowVisible\<close>. Hence on every page reached from
  the initial page by runs of \<^verbatim>\<open>bootstrap\<close> and clicks on retry (each handler running to
  completion), \<^verbatim>\<open>show_main_window\<close> has been fulfilled at most once, and if it has, a further
  call changes nothing, whatever the backend would answer.
\<close>

theorem ensureMainWindowVisible_at_most_once:
  "fst (ensureMainWindowVisible be w) = Inr ()
   \<and> (windowVisible w \<longrightarrow> ensureMainWindowVisible be w = (Inr (), w))
   \<and> (successes show_main_window (run_events w (snd (ensureMainWindowVisible be w))) = 1
        \<longrightarrow> windowVisible (snd (ensureMainWindowVisible be w)))
   \<and> successes show_main_window (trace (session be acts initial_page)) \<le> 1
   \<and> (successes show_main_window (trace (session be acts initial_page)) = 1 \<longrightarrow>
        ensureMainWindowVisible be (session be acts initial_page)
          = (Inr (), session be acts initial_page))"
proof -
  have never_rejected: "fst (ensureMainWindowVisible be w) = Inr ()"
    by (rule ensureMainWindowVisible_fulfilled)
  have returns_at_once: "windowVisible w \<longrightarrow> ensureMainWindowVisible be w = (Inr (), w)"
    by (simp add: ensureMainWindowVisible_def fulfilled_def)
  have sets_flag:
    "successes show_main_window (run_events w (snd (ensureMainWindowVisible be w))) = 1
       \<longrightarrow> windowVisible (snd (ensureMainWindowVisible be w))"
    by (simp add: ensureMainWindowVisible_def promise_steps emit_def run_events_def
        successes_def split: option.splits)
  have inv: "shown_once (session be acts initial_page)"
    by (rule shown_once_session [OF shown_once_initial_page])
  then have at_most_once:
    "successes show_main_window (trace (session be acts initial_page)) \<le> 1"
    by (simp add: shown_once_def split: if_splits)
  from inv have later_calls:
    "successes show_main_window (trace (session be acts initial_page)) = 1 \<longrightarrow>
       ensureMainWindowVisible be (session be acts initial_page)
         = (Inr (), session be acts initial_page)"
    by (simp add: shown_once_def ensureMainWindowVisible_def fulfilled_def split: if_splits)
  from never_rejected returns_at_once sets_flag at_most_once later_calls
  show ?thesis by blast
qed

theorem ensureMainWindowVisible_at_most_once_witness:
  "windowVisible (session offline_backend [RunBootstrap, RetryClick] initial_page)
   \<and> successes show_main_window
        (trace (session offline_backend [RunBootstrap, RetryClick] initial_page)) = 1
   \<and> invocations retry_connect
        (trace (session offline_backend [RunBootstrap, RetryClick] initial_page)) = 1
   \<and> ensureMainWindowVisible offline_backend
        (session offline_backend [RunBootstrap, RetryClick] initial_page)
       = (Inr (), session offline_backend [RunBootstrap, RetryClick] initial_page)"
proof -
  let ?loaded = "snd (bootstrap offline_backend initial_page)"
  let ?p = "session offline_backend [RunBootstrap, RetryClick] initial_page"
  have loaded:
    "windowVisible ?loaded"
    "successes show_main_window (trace ?loaded) = 1"
    "invocations retry_connect (trace ?loaded) = 0"
    by (simp_all add: bootstrap_def invoke_bootstrap_state_def dispatch_steps nullish_or_def
        successes_def offline_backend_def offline_state_def initial_page_def)
  have rejected: "command_reply offline_backend retry_connect n
      = Some ''Could not reach server at http://192.168.50.55:3000''" for n
    by (simp add: offline_backend_def)
  have p: "?p = snd (retryConnection offline_backend ?loaded)"
    by simp
  have visible: "windowVisible ?p"
    unfolding p using loaded
    by (simp add: retryConnection_def ensureMainWindowVisible_def page_writes promise_steps
        rejected)
  have shown: "successes show_main_window (trace ?p) = 1"
    unfolding p using loaded
    by (simp add: retryConnection_def ensureMainWindowVisible_def page_writes promise_steps
        successes_def rejected)
  have retried: "invocations retry_connect (trace ?p) = 1"
    unfolding p using loaded
    by (simp add: retryConnection_def ensureMainWindowVisible_def page_writes promise_steps
        invocations_def rejected)
  show ?thesis
    using visible shown retried
      ensureMainWindowVisible_at_most_once
        [where be = offline_backend and w = "?p" and acts = "[RunBootstrap, RetryClick]"]
    by blast
qed

section \<open>Properties of the backend stages\<close>




text \<open>
  Claim C2. The guard allows a request exactly when its host, lower-cased, is one of the
  allowed hosts, lower-cased, and blocks it otherwise; the port of the request does not
  matter. With the allowlist \<^verbatim>\<open>{192.168.50.55}\<close> a request to \<^verbatim>\<open>evil.example.com\<close> is blocked and
  one to \<^verbatim>\<open>192.168.50.55:3000\<close> is allowed. A blocked request leaves the window as it is: on its
  current page, with nothing redirected externally.
\<close>

theorem navigation_guard_by_host:
  "(navigation_guard allowed_hosts req = Allow
      \<longleftrightarrow> lower (req_host req) \<in> lower ` set allowed_hosts)
   \<and> (navigation_guard allowed_hosts req = Block
      \<longleftrightarrow> lower (req_host req) \<notin> lower ` set allowed_hosts)
   \<and> navigation_guard allowed_hosts (req\<lparr>req_port := p\<rparr>) = navigation_guard allowed_hosts req
   \<and> navigation_guard [''192.168.50.55''] \<lparr>req_host = ''evil.example.com'', req_port = q\<rparr>
       = Block
   \<and> navigation_guard [''192.168.50.55''] \<lparr>req_host = ''192.168.50.55'', req_port = Some 3000\<rparr>
       = Allow
   \<and> (navigation_guard allowed_hosts req = Block \<longrightarrow>
        navigate allowed_hosts win req = win
        \<and> current_page (navigate allowed_hosts win req) = current_page win
        \<and> redirected_externally (navigate allowed_hosts win req) = redirected_externally win)"
  by (simp add: navigation_guard_def navigate_def lower_def to_lower_def)

theorem navigation_guard_by_host_witness:
  "navigation_guard [''192.168.50.55''] \<lparr>req_host = ''evil.example.com'', req_port = None\<rparr>
     = Block
   \<and> navigate [''192.168.50.55'']
        \<lparr>current_page = \<lparr>req_host = ''192.168.50.55'', req_port = Some 3000\<rparr>,
         redirected_externally = []\<rparr>
        \<lparr>req_host = ''evil.example.com'', req_port = None\<rparr>
      = \<lparr>current_page = \<lparr>req_host = ''192.168.50.55'', req_port = Some 3000\<rparr>,
         redirected_externally = []\<rparr>
   \<and> navigation_guard [''192.168.50.55''] \<lparr>req_host = ''192.168.50.55'', req_port = Some 443\<rparr>
      = Allow"
  using
    navigation_guard_by_host
      [of "[''192.168.50.55'']" "\<lparr>req_host = ''evil.example.com'', req_port = None\<rparr>"
          None None
          "\<lparr>current_page = \<lparr>req_host = ''192.168.50.55'', req_port = Some 3000\<rparr>,
            redirected_externally = []\<rparr>"]
    navigation_guard_by_host
      [of "[''192.168.50.55'']" "\<lparr>req_host = ''192.168.50.55'', req_port = Some 3000\<rparr>"
          "Some 443" None
          "\<lparr>current_page = \<lparr>req_host = ''192.168.50.55'', req_port = Some 3000\<rparr>,
            redirected_externally = []\<rparr>"]
  by simp

text \<open>
  Claim C6. Resolution is per key: the value of a key is the one of the first of the four
  sources, in precedence order, that defines the key; a source that does not define the key
  hides nothing, whatever other keys it defines, and a key that no source defines stays
  undefined.
\<close>

theorem resolve_per_key:
  "resolve srcs k =
     (case process_env srcs k of
        Some v \<Rightarrow> Some v
      | None \<Rightarrow>
          (case cwd_file srcs k of
             Some v \<Rightarrow> Some v
           | None \<Rightarrow>
               (case exe_file srcs k of
                  Some v \<Rightarrow> Some v
                | None \<Rightarrow> appdata_file srcs k)))"
  by (simp add: resolve_def take_unresolved_def split: option.splits)

theorem resolve_per_key_witness:
  "resolve
     \<lparr>process_env = Map.empty,
      cwd_file = [WINDOW_TITLE \<mapsto> ''CRA (test)''],
      exe_file = [APP_URL \<mapsto> ''https://192.168.50.55''],
      appdata_file = [APP_URL \<mapsto> ''http://192.168.50.55:3000'',
                      ALLOWED_HOSTS \<mapsto> ''192.168.50.55'', WINDOW_TITLE \<mapsto> ''CRA Client'']\<rparr>
     APP_URL = Some ''https://192.168.50.55''
   \<and> resolve
     \<lparr>process_env = Map.empty,
      cwd_file = [WINDOW_TITLE \<mapsto> ''CRA (test)''],
      exe_file = [APP_URL \<mapsto> ''https://192.168.50.55''],
      appdata_file = [APP_URL \<mapsto> ''http://192.168.50.55:3000'',
                      ALLOWED_HOSTS \<mapsto> ''192.168.50.55'', WINDOW_TITLE \<mapsto> ''CRA Client'']\<rparr>
     ALLOWED_HOSTS = Some ''192.168.50.55''
   \<and> resolve
     \<lparr>process_env = Map.empty,
      cwd_file = [WINDOW_TITLE \<mapsto> ''CRA (test)''],
      exe_file = [APP_URL \<mapsto> ''https://192.168.50.55''],
      appdata_file = [APP_URL \<mapsto> ''http://192.168.50.55:3000'',
                      ALLOWED_HOSTS \<mapsto> ''192.168.50.55'', WINDOW_TITLE \<mapsto> ''CRA Client'']\<rparr>
     WINDOW_TITLE = Some ''CRA (test)''"
  by (simp add: resolve_per_key)

end
